theory Spec2Isabelle
  imports Main "HOL-Library.AList"
begin

section \<open>The survey response form (survey/forms.py)\<close>

text \<open>
  A shallow embedding of \<^verbatim>\<open>ResponseForm\<close>: the form that is built from a survey's
  questions and answer groups, paginated by step, pre-filled from a stored response and
  saved as one Answer per submitted field. Exceptions of the Python code are values of
  \<open>py_error\<close>; a function that can raise returns \<open>py_error + 'a\<close>.
\<close>

subsection \<open>Errors\<close>

datatype py_error =
    IndexError
  | ValueError
  | TypeError
  | AttributeError
  | DoesNotExist
  | MultipleObjectsReturned

subsection \<open>Python strings and lists\<close>

text \<open>
  \<^verbatim>\<open>str.isspace\<close> on the ASCII range: tab, line feed, vertical tab, form feed, carriage
  return, the four separators 0x1C-0x1F and the space.
\<close>

definition py_isspace :: "char \<Rightarrow> bool" where
  "py_isspace c =
     (let n = (of_char c :: nat) in (9 \<le> n \<and> n \<le> 13) \<or> (28 \<le> n \<and> n \<le> 32))"

definition py_strip :: "string \<Rightarrow> string" where
  \<comment> \<open>\<^verbatim>\<open>s.strip()\<close>\<close>
  "py_strip s = rev (dropWhile py_isspace (rev (dropWhile py_isspace s)))"

definition py_slice_1_m1 :: "'a list \<Rightarrow> 'a list" where
  \<comment> \<open>\<^verbatim>\<open>s[1:-1]\<close>: empty when s has fewer than two elements\<close>
  "py_slice_1_m1 s = butlast (tl s)"

text \<open>
  \<^verbatim>\<open>s.split(sep)\<close>: the pieces between the occurrences of sep, found from the left and
  not overlapping; ValueError on the empty separator. \<open>cur\<close> is the piece being read.
\<close>

fun split_from :: "string \<Rightarrow> string \<Rightarrow> string \<Rightarrow> string list" where
  "split_from sep cur [] = [cur]"
| "split_from sep cur (c # cs) =
     (if sep \<noteq> [] \<and> take (length sep) (c # cs) = sep
      then cur # split_from sep [] (drop (length sep - 1) cs)
      else split_from sep (cur @ [c]) cs)"

definition py_split :: "string \<Rightarrow> string \<Rightarrow> py_error + string list" where
  "py_split sep s = (if sep = [] then Inl ValueError else Inr (split_from sep [] s))"

definition py_split_once :: "char \<Rightarrow> string \<Rightarrow> string list" where
  \<comment> \<open>\<^verbatim>\<open>s.split(c, 1)\<close>: at most one split, at the first c\<close>
  "py_split_once c s =
     (if c \<in> set s then [takeWhile (\<lambda>x. x \<noteq> c) s, tl (dropWhile (\<lambda>x. x \<noteq> c) s)] else [s])"

definition py_getitem :: "'a list \<Rightarrow> int \<Rightarrow> py_error + 'a" where
  \<comment> \<open>\<^verbatim>\<open>xs[i]\<close>: a negative index counts from the end, IndexError out of range\<close>
  "py_getitem xs i =
     (if 0 \<le> i \<and> i < int (length xs) then Inr (xs ! nat i)
      else if i < 0 \<and> - int (length xs) \<le> i then Inr (xs ! nat (int (length xs) + i))
      else Inl IndexError)"

definition digit_char :: "nat \<Rightarrow> char" where
  "digit_char d = char_of (48 + d)"

fun dec_digits :: "nat \<Rightarrow> string" where
  "dec_digits n = (if n < 10 then [digit_char n] else dec_digits (n div 10) @ [digit_char (n mod 10)])"

definition py_str_int :: "int \<Rightarrow> string" where
  \<comment> \<open>\<^verbatim>\<open>str(i)\<close>, \<^verbatim>\<open>"%d" % i\<close> and \<^verbatim>\<open>"{}".format(i)\<close> of an integer\<close>
  "py_str_int i = (if i < 0 then CHR ''-'' # dec_digits (nat (- i)) else dec_digits (nat i))"

definition is_digit :: "char \<Rightarrow> bool" where
  "is_digit c = (let n = (of_char c :: nat) in 48 \<le> n \<and> n \<le> 57)"

definition digits_value :: "string \<Rightarrow> nat" where
  "digits_value ds = foldl (\<lambda>acc c. 10 * acc + (of_char c - 48)) 0 ds"

text \<open>
  \<^verbatim>\<open>int(s)\<close> on an ASCII string without underscores (the strings parsed here are pieces of
  a split at underscores): surrounding white space is dropped, one sign is allowed, and the
  rest must be one or more ASCII digits; anything else is a ValueError. The white space that
  \<^verbatim>\<open>int\<close> drops is tab, line feed, vertical tab, form feed, carriage return and the space:
  unlike \<^verbatim>\<open>str.strip\<close> it does not drop the separators 0x1C-0x1F, so that
  \<^verbatim>\<open>int("\x1c5")\<close> is a ValueError.
\<close>

definition int_isspace :: "char \<Rightarrow> bool" where
  "int_isspace c = (let n = (of_char c :: nat) in (9 \<le> n \<and> n \<le> 13) \<or> n = 32)"

definition int_strip :: "string \<Rightarrow> string" where
  "int_strip s = rev (dropWhile int_isspace (rev (dropWhile int_isspace s)))"

definition py_int :: "string \<Rightarrow> py_error + int" where
  "py_int s =
     (let t = int_strip s;
          (neg, ds) = (case t of
                         c # r \<Rightarrow> if c = CHR ''-'' then (True, r)
                                  else if c = CHR ''+'' then (False, r) else (False, t)
                       | [] \<Rightarrow> (False, t))
      in if ds \<noteq> [] \<and> list_all is_digit ds
         then Inr (if neg then - int (digits_value ds) else int (digits_value ds))
         else Inl ValueError)"

definition startswith :: "string \<Rightarrow> string \<Rightarrow> bool" where
  "startswith s p = (take (length p) s = p)"

subsection \<open>The data model (the attributes of survey.models that forms.py reads)\<close>

text \<open>The nine declared answer-group types, \<^verbatim>\<open>AnswerGroup.TEXT\<close> ... \<^verbatim>\<open>AnswerGroup.DATE\<close>.\<close>

datatype ag_type =
    TEXT
  | SHORT_TEXT
  | RADIO
  | SELECT
  | SELECT_IMAGE
  | SELECT_MULTIPLE
  | INTEGER
  | FLOAT
  | DATE

datatype display_method = ALL_IN_ONE_PAGE | BY_QUESTION | BY_CATEGORY

record category =
  c_pk :: int
  c_name :: string
  c_description :: string

text \<open>
  \<open>ag_choices\<close> is what \<^verbatim>\<open>ag.get_choices()\<close> returns: the declared (value, label) pairs.
\<close>

record answer_group =
  ag_pk :: int
  ag_type :: ag_type
  ag_name :: string
  ag_prefix :: "string option"
  ag_suffix :: "string option"
  ag_choices :: "(string \<times> string) list"

record question =
  q_pk :: int
  q_text :: string
  q_required :: bool
  q_category :: "category option"
  q_order :: "int option"
  q_answer_groups :: "answer_group list"

text \<open>
  \<open>s_questions\<close> is the survey's question set as the query
  \<^verbatim>\<open>survey.questions.order_by("order", "id")\<close> lists it; a \<^verbatim>\<open>filter\<close> of that query keeps
  this order.
\<close>

record survey =
  s_id :: int
  s_display_method :: display_method
  s_editable_answers :: bool
  s_questions :: "question list"

record user =
  u_id :: int
  is_authenticated :: bool

text \<open>
  A Response row; \<open>r_pk\<close> is None until the row is saved. An Answer holds its question and
  its answer group as objects and its response by primary key; the type of its body is a
  parameter: the stored text when answers are read back, the cleaned value of a field when
  \<^verbatim>\<open>save\<close> assigns it.
\<close>

record response =
  r_pk :: "nat option"
  r_survey :: "int option"
  r_user :: "int option"
  r_interview_uuid :: string
  r_random_seed :: int
  r_extra :: string

record 'b answer =
  a_pk :: "nat option"
  a_response :: "nat option"
  a_question :: question
  a_answer_group :: answer_group
  a_body :: 'b

subsection \<open>The form\<close>

text \<open>
  The attributes of a \<^verbatim>\<open>ResponseForm\<close> that __init__ fixes: the survey, the user, the
  pass-through string, the step (None when the caller passed none), the random seed, the
  interview identifier, and \<open>f_categories\<close>, the list \<^verbatim>\<open>survey.non_empty_categories()\<close>
  returned (that method is in survey/models.py; the form only stores its result).
\<close>

record form =
  f_survey :: survey
  f_user :: user
  f_extra :: string
  f_step :: "int option"
  f_random_seed :: int
  f_uuid :: string
  f_categories :: "category list"

subsection \<open>Schema reader\<close>

definition is_all_in_one_page :: "survey \<Rightarrow> bool" where
  \<comment> \<open>Modelled from the spec: \<^verbatim>\<open>Survey.is_all_in_one_page\<close> is in survey/models.py, which is
      not among the sources; the spec gives "mode is ALL_IN_ONE".\<close>
  "is_all_in_one_page s = (s_display_method s = ALL_IN_ONE_PAGE)"

definition qs_with_no_cat :: "form \<Rightarrow> question list" where
  \<comment> \<open>\<^verbatim>\<open>survey.questions.filter(category__isnull=True).order_by("order", "id")\<close>\<close>
  "qs_with_no_cat f = filter (\<lambda>q. q_category q = None) (s_questions (f_survey f))"

definition randomize_questions :: "form \<Rightarrow> question list" where
  \<comment> \<open>\<^verbatim>\<open>survey.questions.filter(order__isnull=True)\<close>\<close>
  "randomize_questions f = filter (\<lambda>q. q_order q = None) (s_questions (f_survey f))"

subsection \<open>Step resolver\<close>

definition steps_count :: "form \<Rightarrow> int" where
  \<comment> \<open>__init__, lines 65-68; a query set is true when it has a row\<close>
  "steps_count f =
     (if s_display_method (f_survey f) = BY_CATEGORY
      then int (length (f_categories f)) + (if qs_with_no_cat f \<noteq> [] then 1 else 0)
      else int (length (s_questions (f_survey f))))"

text \<open>
  \<^verbatim>\<open>has_next_step\<close> reads \<^verbatim>\<open>self.step\<close>, which __init__ sets to an integer or, when no
  step was passed, to None. Python 3 raises TypeError when None is compared with an integer.
\<close>

definition has_next_step :: "form \<Rightarrow> py_error + bool" where
  "has_next_step f =
     (if \<not> is_all_in_one_page (f_survey f) then
        (case f_step f of
           None \<Rightarrow> Inl TypeError
         | Some i \<Rightarrow> if i < steps_count f - 1 then Inr True else Inr False)
      else Inr False)"

subsection \<open>Answer recovery cache\<close>

text \<open>
  An attribute that starts as False, may be set to None and may hold an object
  (\<^verbatim>\<open>self.response\<close>, \<^verbatim>\<open>self.answers\<close>).
\<close>

datatype 'a attr = PyFalse | PyNone | Obj 'a

text \<open>
  What the form reads and changes: the tables of the persistence layer, the two memoised
  attributes of the form, and the completion events sent so far (each the saved response,
  the survey id, the interview identifier and the (question id, body) pairs).
\<close>

type_synonym 'b answers_dict = "(int \<times> (int \<times> 'b answer) list) list"

record 'b store =
  db_responses :: "response list"
  db_answers :: "'b answer list"
  db_questions :: "question list"
  db_answer_groups :: "answer_group list"
  self_response :: "response attr"
  self_answers :: "'b answers_dict attr"
  sent :: "(response \<times> int option \<times> string \<times> (int \<times> 'b) list) list"

definition objects_get :: "('a \<Rightarrow> bool) \<Rightarrow> 'a list \<Rightarrow> py_error + 'a" where
  \<comment> \<open>\<^verbatim>\<open>Model.objects.get(...)\<close>: the one matching row\<close>
  "objects_get p rows =
     (case filter p rows of
        [] \<Rightarrow> Inl DoesNotExist
      | [r] \<Rightarrow> Inr r
      | _ # _ # _ \<Rightarrow> Inl MultipleObjectsReturned)"

definition get_preexisting_response ::
  "form \<Rightarrow> 'b store \<Rightarrow> (py_error + response option) \<times> 'b store" where
  "get_preexisting_response f st =
     (case self_response st of
        Obj r \<Rightarrow> (Inr (Some r), st)
      | _ \<Rightarrow>
          if \<not> is_authenticated (f_user f) then (Inr None, st\<lparr>self_response := PyNone\<rparr>)
          else
            (case objects_get
                    (\<lambda>r. r_user r = Some (u_id (f_user f)) \<and> r_survey r = Some (s_id (f_survey f)))
                    (db_responses st) of
               Inr r \<Rightarrow> (Inr (Some r), st\<lparr>self_response := Obj r\<rparr>)
             | Inl DoesNotExist \<Rightarrow> (Inr None, st\<lparr>self_response := PyNone\<rparr>)
             | Inl e \<Rightarrow> (Inl e, st)))"

definition index_answer :: "'b answers_dict \<Rightarrow> 'b answer \<Rightarrow> 'b answers_dict" where
  \<comment> \<open>one turn of the loop of lines 167-170\<close>
  "index_answer d a =
     (let qid = q_pk (a_question a);
          qanswers = (case map_of d qid of None \<Rightarrow> [] | Some x \<Rightarrow> x)
      in AList.update qid (AList.update (ag_pk (a_answer_group a)) a qanswers) d)"

definition get_preexisting_answers ::
  "form \<Rightarrow> 'b store \<Rightarrow> (py_error + 'b answers_dict) \<times> 'b store" where
  "get_preexisting_answers f st =
     (case (case self_answers st of Obj d \<Rightarrow> if d \<noteq> [] then Some d else None | _ \<Rightarrow> None) of
        Some d \<Rightarrow> (Inr d, st)
      | None \<Rightarrow>
          (case get_preexisting_response f st of
             (Inl e, st') \<Rightarrow> (Inl e, st')
           | (Inr response, st') \<Rightarrow>
               let answers = filter (\<lambda>a. a_response a = (case response of None \<Rightarrow> None | Some r \<Rightarrow> r_pk r))
                               (db_answers st');
                   d = foldl index_answer [] answers
               in (Inr d, st'\<lparr>self_answers := Obj d\<rparr>)))"

definition get_preexisting_answer_all ::
  "form \<Rightarrow> question \<Rightarrow> 'b store \<Rightarrow> (py_error + (int \<times> 'b answer) list) \<times> 'b store" where
  \<comment> \<open>\<^verbatim>\<open>_get_preexisting_answer(question, None)\<close>\<close>
  "get_preexisting_answer_all f question st =
     (case get_preexisting_answers f st of
        (Inl e, st') \<Rightarrow> (Inl e, st')
      | (Inr answers, st') \<Rightarrow>
          (Inr (case map_of answers (q_pk question) of None \<Rightarrow> [] | Some x \<Rightarrow> x), st'))"

definition get_preexisting_answer ::
  "form \<Rightarrow> question \<Rightarrow> answer_group \<Rightarrow> 'b store \<Rightarrow> (py_error + 'b answer option) \<times> 'b store" where
  \<comment> \<open>\<^verbatim>\<open>_get_preexisting_answer(question, answer_group)\<close> with an answer group\<close>
  "get_preexisting_answer f question answer_group st =
     (case get_preexisting_answers f st of
        (Inl e, st') \<Rightarrow> (Inl e, st')
      | (Inr answers, st') \<Rightarrow>
          (Inr (map_of (case map_of answers (q_pk question) of None \<Rightarrow> [] | Some x \<Rightarrow> x)
                  (ag_pk answer_group)), st'))"

subsection \<open>Field synthesizer: the initial value\<close>

text \<open>
  \<open>slugify\<close> is \<^verbatim>\<open>django.utils.text.slugify\<close> and \<open>sep\<close> is
  \<^verbatim>\<open>settings.CHOICES_SEPARATOR\<close>; both come from outside this repository and are
  parameters here.
\<close>

fun decode_choices ::
  "(string \<Rightarrow> string) \<Rightarrow> string list \<Rightarrow> string list \<Rightarrow> py_error + string list" where
  \<comment> \<open>the loop of lines 206-208; \<open>acc\<close> is \<^verbatim>\<open>initial[ag_id]\<close>\<close>
  "decode_choices slugify [] acc = Inr acc"
| "decode_choices slugify (unformated_choice # rest) acc =
     (case py_getitem (split_from [CHR 0x27] [] unformated_choice) 1 of
        Inl e \<Rightarrow> Inl e
      | Inr choice \<Rightarrow> decode_choices slugify rest (acc @ [slugify choice]))"

definition select_multiple_initial ::
  "(string \<Rightarrow> string) \<Rightarrow> string \<Rightarrow> string \<Rightarrow> py_error + string list" where
  \<comment> \<open>lines 200-211: the value of \<^verbatim>\<open>initial[ag_id]\<close> for a multi-select answer\<close>
  "select_multiple_initial slugify sep body =
     (if body = ''[]'' then Inr []
      else if CHR ''['' \<in> set body \<and> CHR '']'' \<in> set body then
        (case py_split sep (py_strip (py_slice_1_m1 body)) of
           Inl e \<Rightarrow> Inl e
         | Inr unformated_choices \<Rightarrow> decode_choices slugify unformated_choices [])
      else Inr [slugify body])"

datatype init_value = ChoiceList "string list" | BodyText string

fun initial_from_answers ::
  "(string \<Rightarrow> string) \<Rightarrow> string \<Rightarrow> (int \<times> string answer) list \<Rightarrow> (int \<times> init_value) list
     \<Rightarrow> py_error + (int \<times> init_value) list" where
  \<comment> \<open>the loop of lines 197-213 over \<^verbatim>\<open>answers.items()\<close>\<close>
  "initial_from_answers slugify sep [] initial = Inr initial"
| "initial_from_answers slugify sep ((ag_id, answer) # rest) initial =
     (if ag_type (a_answer_group answer) = SELECT_MULTIPLE then
        (case select_multiple_initial slugify sep (a_body answer) of
           Inl e \<Rightarrow> Inl e
         | Inr choices \<Rightarrow>
             initial_from_answers slugify sep rest (AList.update ag_id (ChoiceList choices) initial))
      else initial_from_answers slugify sep rest (AList.update ag_id (BodyText (a_body answer)) initial))"

text \<open>
  The initial value is the dictionary built from the stored answers, or whatever
  \<^verbatim>\<open>data.get\<close> returns (None when the key is missing). \<open>data\<close> is None or a dictionary from
  field names to submitted strings; it is true when it is a dictionary with an entry.
\<close>

datatype initial = FromAnswers "(int \<times> init_value) list" | FromData "string option"

definition get_question_initial ::
  "(string \<Rightarrow> string) \<Rightarrow> string \<Rightarrow> form \<Rightarrow> question \<Rightarrow> (string \<times> string) list option
     \<Rightarrow> string store \<Rightarrow> (py_error + initial) \<times> string store" where
  "get_question_initial slugify sep f question data st =
     (case get_preexisting_answer_all f question st of
        (Inl e, st') \<Rightarrow> (Inl e, st')
      | (Inr answers, st') \<Rightarrow>
          (case initial_from_answers slugify sep answers [] of
             Inl e \<Rightarrow> (Inl e, st')
           | Inr initial \<Rightarrow>
               (case data of
                  Some (kv # kvs) \<Rightarrow>
                    (Inr (FromData (map_of (kv # kvs) (''question_'' @ py_str_int (q_pk question)))), st')
                | _ \<Rightarrow> (Inr (FromAnswers initial), st'))))"

subsection \<open>The persisted multi-select body\<close>







text \<open>
  A stand-in for \<^verbatim>\<open>django.utils.text.slugify\<close> on ASCII text, as Django 3.1 (the version the
  migrations name) defines it: lower case, drop what is not a word character, white space or
  a hyphen, strip, and put one hyphen for each run of hyphens and white space. It is used
  where a concrete function is needed to evaluate an example.
\<close>

definition ascii_lower :: "char \<Rightarrow> char" where
  "ascii_lower c = (let n = (of_char c :: nat) in if 65 \<le> n \<and> n \<le> 90 then char_of (n + 32) else c)"

definition is_word_char :: "char \<Rightarrow> bool" where
  "is_word_char c =
     (let n = (of_char c :: nat)
      in (48 \<le> n \<and> n \<le> 57) \<or> (65 \<le> n \<and> n \<le> 90) \<or> (97 \<le> n \<and> n \<le> 122) \<or> n = 95)"

fun hyphenate :: "bool \<Rightarrow> string \<Rightarrow> string" where
  \<comment> \<open>\<open>in_run\<close>: the character before was a hyphen or white space\<close>
  "hyphenate in_run [] = []"
| "hyphenate in_run (c # cs) =
     (if c = CHR ''-'' \<or> py_isspace c
      then (if in_run then hyphenate True cs else CHR ''-'' # hyphenate True cs)
      else c # hyphenate False cs)"

definition slugify_ascii :: "string \<Rightarrow> string" where
  "slugify_ascii v =
     hyphenate False (py_strip (filter (\<lambda>c. is_word_char c \<or> py_isspace c \<or> c = CHR ''-'')
                                  (map ascii_lower (filter (\<lambda>c. (of_char c :: nat) < 128) v))))"

subsection \<open>Deterministic shuffler and the questions of a step\<close>

text \<open>
  Python's generator is one state shared by the whole process. \<open>seed\<close> is
  \<^verbatim>\<open>random.seed\<close> on an integer (the state it sets depends on the integer only) and
  \<open>shuffle\<close> is \<^verbatim>\<open>random.shuffle\<close>, which reads and advances the state; both belong to the
  standard library and are parameters. \<open>g\<close> is the state before the call.
\<close>

definition seeded_shuffle ::
  "(int \<Rightarrow> 'g) \<Rightarrow> ('g \<Rightarrow> 'a list \<Rightarrow> 'a list \<times> 'g) \<Rightarrow> int \<Rightarrow> 'a list \<Rightarrow> 'g \<Rightarrow> 'a list \<times> 'g" where
  \<comment> \<open>lines 97-99 and 106-108: \<^verbatim>\<open>random.seed(self.random_seed); random.shuffle(xs)\<close>\<close>
  "seeded_shuffle seed shuffle s xs g = (let g1 = seed s in shuffle g1 xs)"

definition questions_for_step ::
  "(int \<Rightarrow> 'g) \<Rightarrow> ('g \<Rightarrow> question list \<Rightarrow> question list \<times> 'g) \<Rightarrow> form \<Rightarrow> 'g
     \<Rightarrow> (py_error + question list) \<times> 'g" where
  \<comment> \<open>the questions \<^verbatim>\<open>add_questions\<close> passes to \<^verbatim>\<open>add_question\<close>, in that order\<close>
  "questions_for_step seed shuffle f g =
     (if s_display_method (f_survey f) = BY_CATEGORY \<and> f_step f \<noteq> None then
        (case (if the (f_step f) = int (length (f_categories f)) then Inr (qs_with_no_cat f)
               else (case py_getitem (f_categories f) (the (f_step f)) of
                       Inl e \<Rightarrow> Inl e
                     | Inr c \<Rightarrow>
                         Inr (filter (\<lambda>q. map_option c_pk (q_category q) = Some (c_pk c))
                                (s_questions (f_survey f))))) of
           Inl e \<Rightarrow> (Inl e, g)
         | Inr qs_for_step \<Rightarrow>
             if randomize_questions f \<noteq> [] then
               (let (qs, g') = seeded_shuffle seed shuffle (f_random_seed f) qs_for_step g
                in (Inr qs, g'))
             else (Inr qs_for_step, g))
      else
        (let (questions, g') =
               (if randomize_questions f \<noteq> []
                then seeded_shuffle seed shuffle (f_random_seed f) (s_questions (f_survey f)) g
                else (s_questions (f_survey f), g))
         in (Inr (map snd
                    (filter (\<lambda>(i, question).
                               \<not> (s_display_method (f_survey f) = BY_QUESTION
                                  \<and> (Some (int i) \<noteq> f_step f \<and> f_step f \<noteq> None)))
                       (enumerate 0 questions))), g')))"

subsection \<open>Field synthesizer: choices, widgets, fields\<close>

datatype field_class =
  CharField | MultipleChoiceField | IntegerField | FloatField | DateField | ChoiceField

datatype widget =
  Textarea | TextInput | RadioSelect | Select | ImageSelectWidget | CheckboxSelectMultiple

fun FIELDS :: "ag_type \<Rightarrow> field_class option" where
  "FIELDS TEXT = Some CharField"
| "FIELDS SHORT_TEXT = Some CharField"
| "FIELDS SELECT_MULTIPLE = Some MultipleChoiceField"
| "FIELDS INTEGER = Some IntegerField"
| "FIELDS FLOAT = Some FloatField"
| "FIELDS DATE = Some DateField"
| "FIELDS _ = None"

fun WIDGETS :: "ag_type \<Rightarrow> widget option" where
  "WIDGETS TEXT = Some Textarea"
| "WIDGETS SHORT_TEXT = Some TextInput"
| "WIDGETS RADIO = Some RadioSelect"
| "WIDGETS SELECT = Some Select"
| "WIDGETS SELECT_IMAGE = Some ImageSelectWidget"
| "WIDGETS SELECT_MULTIPLE = Some CheckboxSelectMultiple"
| "WIDGETS _ = None"

fun widgets_dict :: "answer_group list \<Rightarrow> (int \<times> widget) list \<Rightarrow> (int \<times> widget) list option" where
  \<comment> \<open>the dictionary comprehension of line 226; None stands for the KeyError\<close>
  "widgets_dict [] d = Some d"
| "widgets_dict (ag # ags) d =
     (case WIDGETS (ag_type ag) of
        None \<Rightarrow> None
      | Some w \<Rightarrow> widgets_dict ags (AList.update (ag_pk ag) w d))"

definition get_question_widget :: "question \<Rightarrow> (int \<times> widget) list option" where
  "get_question_widget question = widgets_dict (q_answer_groups question) []"

fun choices_dict ::
  "answer_group list \<Rightarrow> (int \<times> (string \<times> string) list) list \<Rightarrow> (int \<times> (string \<times> string) list) list" where
  \<comment> \<open>the loop of lines 237-251; \<open>qchoices\<close> is the dictionary being filled\<close>
  "choices_dict [] qchoices = qchoices"
| "choices_dict (ag # ags) qchoices =
     (if ag_type ag \<notin> {TEXT, SHORT_TEXT, INTEGER, FLOAT, DATE} then
        (let choices = ag_choices ag;
             choices = (if ag_type ag \<in> {SELECT, SELECT_IMAGE}
                        then ([], ''-------------'') # choices else choices)
         in if choices \<noteq> [] then choices_dict ags (AList.update (ag_pk ag) choices qchoices)
            else choices_dict ags qchoices)
      else choices_dict ags qchoices)"

definition get_question_choices :: "question \<Rightarrow> (int \<times> (string \<times> string) list) list option" where
  "get_question_choices question =
     (let qchoices = choices_dict (q_answer_groups question) []
      in if qchoices \<noteq> [] then Some qchoices else None)"

text \<open>
  A synthesized field: its class and the keyword arguments it was built with (None for an
  argument that was not passed), and the attributes set on its widget.
\<close>

record field =
  fd_class :: field_class
  fd_required :: bool
  fd_label :: string
  fd_initial :: "init_value option"
  fd_choices :: "(string \<times> string) list option"
  fd_widget :: "widget option"
  fd_attrs :: "(string \<times> string) list"

record kwargs =
  kw_required :: bool
  kw_initial :: "initial option"
  kw_choices :: "(int \<times> (string \<times> string) list) list option"
  kw_widget :: "(int \<times> widget) list option"

definition field_for :: "kwargs \<Rightarrow> answer_group \<Rightarrow> py_error + field" where
  \<comment> \<open>one turn of the loop of lines 264-285. \<^verbatim>\<open>ag.pk in fkw["initial"]\<close> is a key test on the
      dictionary built from stored answers and a TypeError on a submitted string.\<close>
  "field_for kw ag =
     (case (case kw_initial kw of
              None \<Rightarrow> Inr None
            | Some (FromAnswers d) \<Rightarrow> Inr (map_of d (ag_pk ag))
            | Some (FromData _) \<Rightarrow> Inl TypeError) of
        Inl e \<Rightarrow> Inl e
      | Inr initial \<Rightarrow>
          Inr \<lparr>fd_class = (case FIELDS (ag_type ag) of Some c \<Rightarrow> c | None \<Rightarrow> ChoiceField),
               fd_required = kw_required kw,
               fd_label = ag_name ag,
               fd_initial = initial,
               fd_choices = (case kw_choices kw of None \<Rightarrow> None | Some d \<Rightarrow> map_of d (ag_pk ag)),
               fd_widget = (case kw_widget kw of None \<Rightarrow> None | Some d \<Rightarrow> map_of d (ag_pk ag)),
               fd_attrs = []\<rparr>)"

fun fields_loop :: "kwargs \<Rightarrow> answer_group list \<Rightarrow> py_error + (answer_group \<times> field) list" where
  "fields_loop kw [] = Inr []"
| "fields_loop kw (ag # ags) =
     (case field_for kw ag of
        Inl e \<Rightarrow> Inl e
      | Inr fd \<Rightarrow> (case fields_loop kw ags of Inl e \<Rightarrow> Inl e | Inr fds \<Rightarrow> Inr ((ag, fd) # fds)))"

definition get_question_fields :: "question \<Rightarrow> kwargs \<Rightarrow> py_error + (answer_group \<times> field) list" where
  \<comment> \<open>\<^verbatim>\<open>question.answer_groups.order_by("pk")\<close> is the groups sorted by primary key\<close>
  "get_question_fields question kw = fields_loop kw (sort_key ag_pk (q_answer_groups question))"

definition initial_true :: "initial \<Rightarrow> bool" where
  \<comment> \<open>\<^verbatim>\<open>if initial:\<close> of line 295\<close>
  "initial_true initial =
     (case initial of
        FromAnswers d \<Rightarrow> d \<noteq> []
      | FromData None \<Rightarrow> False
      | FromData (Some v) \<Rightarrow> v \<noteq> [])"

definition field_id :: "question \<Rightarrow> answer_group \<Rightarrow> string" where
  \<comment> \<open>line 311: \<^verbatim>\<open>"question_{}_{}".format(question.pk, ag.pk)\<close>\<close>
  "field_id question ag = ''question_'' @ py_str_int (q_pk question) @ ''_'' @ py_str_int (ag_pk ag)"

text \<open>
  \<^verbatim>\<open>add_question\<close> returns what it adds: the (identifier, field) pairs it assigns in
  \<^verbatim>\<open>self.fields\<close>, in the order of the assignments, and what it appends under the
  question's key \<^verbatim>\<open>question_<pk>\<close> in \<^verbatim>\<open>self.answer_groups\<close>: the key, the question's
  text and the (identifier, prefix, suffix) triples.
\<close>

type_synonym group_entry = "string \<times> string \<times> (string \<times> string option \<times> string option) list"

definition add_question ::
  "(string \<Rightarrow> string) \<Rightarrow> string \<Rightarrow> form \<Rightarrow> question \<Rightarrow> (string \<times> string) list option
     \<Rightarrow> string store \<Rightarrow> (py_error + (string \<times> field) list \<times> group_entry) \<times> string store" where
  "add_question slugify sep f question data st =
     (case get_question_initial slugify sep f question data st of
        (Inl e, st') \<Rightarrow> (Inl e, st')
      | (Inr initial, st') \<Rightarrow>
          (case get_question_fields question
                  \<lparr>kw_required = q_required question,
                   kw_initial = (if initial_true initial then Some initial else None),
                   kw_choices = get_question_choices question,
                   kw_widget = get_question_widget question\<rparr> of
             Inl e \<Rightarrow> (Inl e, st')
           | Inr fds \<Rightarrow>
               (let fds =
                      map (\<lambda>(ag, fd).
                             (ag, fd\<lparr>fd_attrs :=
                                      (''category'', case q_category question of Some c \<Rightarrow> c_name c | None \<Rightarrow> [])
                                      # (if ag_type ag = DATE then [(''class'', ''date'')] else [])\<rparr>))
                        fds
                in (Inr (map (\<lambda>(ag, fd). (field_id question ag, fd)) fds,
                         (''question_'' @ py_str_int (q_pk question), q_text question,
                          map (\<lambda>(ag, fd). (field_id question ag, ag_prefix ag, ag_suffix ag)) fds)),
                    st'))))"

text \<open>The form's two dictionaries, \<^verbatim>\<open>self.fields\<close> and \<^verbatim>\<open>self.answer_groups\<close>.\<close>

type_synonym built = "(string \<times> field) list \<times> (string \<times> string \<times> (string \<times> string option \<times> string option) list) list"

definition merge_added :: "built \<Rightarrow> (string \<times> field) list \<times> group_entry \<Rightarrow> built" where
  \<comment> \<open>lines 310-316: nothing is added for a question without fields\<close>
  "merge_added b added =
     (case (b, added) of
        ((fds, groups), (new_fields, (idq, qtext, triples))) \<Rightarrow>
          (foldl (\<lambda>d (idf, fd). AList.update idf fd d) fds new_fields,
           if triples = [] then groups
           else (case map_of groups idq of
                   None \<Rightarrow> AList.update idq (qtext, triples) groups
                 | Some (t, old) \<Rightarrow> AList.update idq (t, old @ triples) groups)))"

fun add_each ::
  "(string \<Rightarrow> string) \<Rightarrow> string \<Rightarrow> form \<Rightarrow> (string \<times> string) list option \<Rightarrow> question list
     \<Rightarrow> built \<Rightarrow> string store \<Rightarrow> (py_error + built) \<times> string store" where
  "add_each slugify sep f data [] b st = (Inr b, st)"
| "add_each slugify sep f data (question # rest) b st =
     (case add_question slugify sep f question data st of
        (Inl e, st') \<Rightarrow> (Inl e, st')
      | (Inr added, st') \<Rightarrow> add_each slugify sep f data rest (merge_added b added) st')"

definition add_questions ::
  "(int \<Rightarrow> 'g) \<Rightarrow> ('g \<Rightarrow> question list \<Rightarrow> question list \<times> 'g) \<Rightarrow> (string \<Rightarrow> string) \<Rightarrow> string
     \<Rightarrow> form \<Rightarrow> (string \<times> string) list option \<Rightarrow> string store \<Rightarrow> 'g
     \<Rightarrow> (py_error + built) \<times> string store \<times> 'g" where
  "add_questions seed shuffle slugify sep f data st g =
     (case questions_for_step seed shuffle f g of
        (Inl e, g') \<Rightarrow> (Inl e, st, g')
      | (Inr questions, g') \<Rightarrow>
          (case add_each slugify sep f data questions ([], []) st of
             (r, st') \<Rightarrow> (r, st', g')))"

subsection \<open>Submission materializer\<close>

text \<open>
  The cleaned value of a field: a string (text and choice fields), a list of strings
  (multiple choice), an integer, or None (an optional typed field left empty). Float and date
  values are not modelled.
\<close>

datatype cleaned = Text string | Selected "string list" | Number int | Blank

definition fresh_pk :: "nat option list \<Rightarrow> nat" where
  \<comment> \<open>the key the database gives a new row: above every key in use\<close>
  "fresh_pk pks = Suc (foldl max 0 (map (\<lambda>k. case k of None \<Rightarrow> 0 | Some n \<Rightarrow> n) pks))"

text \<open>
  \<^verbatim>\<open>obj.save()\<close>: a row with the object's key is replaced; an object without key gets a
  fresh one and is appended. The object as saved is returned with the table.
\<close>

definition save_response :: "response \<Rightarrow> response list \<Rightarrow> response \<times> response list" where
  "save_response r rows =
     (case r_pk r of
        Some k \<Rightarrow>
          if Some k \<in> set (map r_pk rows)
          then (r, map (\<lambda>x. if r_pk x = Some k then r else x) rows)
          else (r, rows @ [r])
      | None \<Rightarrow>
          (let r' = r\<lparr>r_pk := Some (fresh_pk (map r_pk rows))\<rparr> in (r', rows @ [r'])))"

definition save_answer :: "'b answer \<Rightarrow> 'b answer list \<Rightarrow> 'b answer \<times> 'b answer list" where
  "save_answer a rows =
     (case a_pk a of
        Some k \<Rightarrow>
          if Some k \<in> set (map a_pk rows)
          then (a, map (\<lambda>x. if a_pk x = Some k then a else x) rows)
          else (a, rows @ [a])
      | None \<Rightarrow>
          (let a' = a\<lparr>a_pk := Some (fresh_pk (map a_pk rows))\<rparr> in (a', rows @ [a'])))"

definition unpack_image_value :: "cleaned \<Rightarrow> py_error + string \<times> string" where
  \<comment> \<open>line 382: \<^verbatim>\<open>value, img_src = field_value.split(":", 1)\<close>\<close>
  "unpack_image_value v =
     (case v of
        Text s \<Rightarrow> (case py_split_once (CHR '':'') s of
                     [x, y] \<Rightarrow> Inr (x, y)
                   | _ \<Rightarrow> Inl ValueError)
      | _ \<Rightarrow> Inl AttributeError)"

definition parse_field_name :: "string \<Rightarrow> py_error + int \<times> int" where
  \<comment> \<open>lines 373-375\<close>
  "parse_field_name field_name =
     (let parts = split_from ''_'' [] field_name
      in case py_getitem parts 1 of
           Inl e \<Rightarrow> Inl e
         | Inr p1 \<Rightarrow>
             (case py_int p1 of
                Inl e \<Rightarrow> Inl e
              | Inr q_id \<Rightarrow>
                  (case py_getitem parts 2 of
                     Inl e \<Rightarrow> Inl e
                   | Inr p2 \<Rightarrow>
                       (case py_int p2 of
                          Inl e \<Rightarrow> Inl e
                        | Inr ag_id \<Rightarrow> Inr (q_id, ag_id)))))"

text \<open>
  One turn of the loop of lines 368-389. The result is the pair appended to
  \<^verbatim>\<open>data["responses"]\<close>, or None for a field whose name does not start with
  \<^verbatim>\<open>question_\<close>. A stored answer that was found is the object held in \<^verbatim>\<open>self.answers\<close>,
  so the assignments to it show there as well.
\<close>

definition save_field ::
  "form \<Rightarrow> response \<Rightarrow> string \<times> cleaned \<Rightarrow> cleaned store
     \<Rightarrow> (py_error + (int \<times> cleaned) option) \<times> cleaned store" where
  "save_field f response fv st =
     (case fv of (field_name, field_value) \<Rightarrow>
        if startswith field_name ''question_'' then
          (case parse_field_name field_name of
             Inl e \<Rightarrow> (Inl e, st)
           | Inr (q_id, ag_id) \<Rightarrow>
               (case objects_get (\<lambda>q. q_pk q = q_id) (db_questions st) of
                  Inl e \<Rightarrow> (Inl e, st)
                | Inr question \<Rightarrow>
                    (case objects_get (\<lambda>g. ag_pk g = ag_id) (db_answer_groups st) of
                       Inl e \<Rightarrow> (Inl e, st)
                     | Inr answer_group \<Rightarrow>
                         (case get_preexisting_answer f question answer_group st of
                            (Inl e, st1) \<Rightarrow> (Inl e, st1)
                          | (Inr found, st1) \<Rightarrow>
                              (case (if ag_type answer_group = SELECT_IMAGE
                                     then unpack_image_value field_value
                                     else Inr ([], [])) of
                                 Inl e \<Rightarrow> (Inl e, st1)
                               | Inr _ \<Rightarrow>
                                   (let answer =
                                          (case found of
                                             None \<Rightarrow> \<lparr>a_pk = None, a_response = None,
                                                       a_question = question,
                                                       a_answer_group = answer_group,
                                                       a_body = field_value\<rparr>
                                           | Some a \<Rightarrow> a);
                                        answer = answer\<lparr>a_body := field_value, a_response := r_pk response\<rparr>;
                                        (answer, rows) = save_answer answer (db_answers st1)
                                    in (Inr (Some (q_pk (a_question answer), a_body answer)),
                                        st1\<lparr>db_answers := rows,
                                            self_answers :=
                                              (case (found, self_answers st1) of
                                                 (Some _, Obj d) \<Rightarrow> Obj (index_answer d answer)
                                               | _ \<Rightarrow> self_answers st1)\<rparr>)))))))
        else (Inr None, st))"

fun save_fields ::
  "form \<Rightarrow> response \<Rightarrow> (string \<times> cleaned) list \<Rightarrow> (int \<times> cleaned) list \<Rightarrow> cleaned store
     \<Rightarrow> (py_error + (int \<times> cleaned) list) \<times> cleaned store" where
  "save_fields f response [] responses st = (Inr responses, st)"
| "save_fields f response (fv # rest) responses st =
     (case save_field f response fv st of
        (Inl e, st') \<Rightarrow> (Inl e, st')
      | (Inr None, st') \<Rightarrow> save_fields f response rest responses st'
      | (Inr (Some pair), st') \<Rightarrow> save_fields f response rest (responses @ [pair]) st')"

definition blank_response :: response where
  \<comment> \<open>the instance of a form built without one: \<^verbatim>\<open>super().save(commit=False)\<close> returns it\<close>
  "blank_response =
     \<lparr>r_pk = None, r_survey = None, r_user = None, r_interview_uuid = [], r_random_seed = 0,
      r_extra = []\<rparr>"

text \<open>
  \<^verbatim>\<open>save\<close>; \<open>cleaned_data\<close> is \<^verbatim>\<open>self.cleaned_data\<close> in the order of its items. A response
  that was found is the object held in \<^verbatim>\<open>self.response\<close>, so the assignments to it show
  there as well.
\<close>

definition save ::
  "form \<Rightarrow> (string \<times> cleaned) list \<Rightarrow> cleaned store \<Rightarrow> (py_error + response option) \<times> cleaned store" where
  "save f cleaned_data st =
     (case get_preexisting_response f st of
        (Inl e, st1) \<Rightarrow> (Inl e, st1)
      | (Inr found, st1) \<Rightarrow>
          if \<not> s_editable_answers (f_survey f) \<and> found \<noteq> None then (Inr None, st1)
          else
            (let response = (case found of None \<Rightarrow> blank_response | Some r \<Rightarrow> r);
                 response = response\<lparr>r_survey := Some (s_id (f_survey f)),
                                     r_interview_uuid := f_uuid f,
                                     r_random_seed := f_random_seed f\<rparr>;
                 response = (if is_authenticated (f_user f)
                             then response\<lparr>r_user := Some (u_id (f_user f))\<rparr> else response);
                 response = response\<lparr>r_extra := f_extra f\<rparr>;
                 (response, rows) = save_response response (db_responses st1);
                 st2 = st1\<lparr>db_responses := rows,
                           self_response := (case found of None \<Rightarrow> self_response st1
                                             | Some _ \<Rightarrow> Obj response)\<rparr>
             in case save_fields f response cleaned_data [] st2 of
                  (Inl e, st3) \<Rightarrow> (Inl e, st3)
                | (Inr responses, st3) \<Rightarrow>
                    (Inr (Some response),
                     st3\<lparr>sent := sent st3 @ [(response, r_survey response,
                                               r_interview_uuid response, responses)]\<rparr>)))"

subsection \<open>Well-formed stores\<close>

text \<open>
  What the persistence layer and the form's own code guarantee of a store: primary keys of
  questions and of answer groups are unique; there is at most one response of the form's
  user to the form's survey (unless the form already holds one); and the memoised answers
  are filed under their own question and answer-group keys, as \<open>index_answer\<close> files them.
\<close>

definition indexed :: "'b answers_dict \<Rightarrow> bool" where
  "indexed d =
     list_all (\<lambda>(qid, qanswers).
                 list_all (\<lambda>(gid, a). q_pk (a_question a) = qid \<and> ag_pk (a_answer_group a) = gid)
                   qanswers) d"

definition store_ok :: "form \<Rightarrow> 'b store \<Rightarrow> bool" where
  "store_ok f st =
     (distinct (map q_pk (db_questions st)) \<and> distinct (map ag_pk (db_answer_groups st))
      \<and> (case self_response st of
            Obj r \<Rightarrow> True
          | _ \<Rightarrow> \<not> is_authenticated (f_user f)
                 \<or> length (filter (\<lambda>r. r_user r = Some (u_id (f_user f))
                                        \<and> r_survey r = Some (s_id (f_survey f)))
                             (db_responses st)) \<le> 1)
      \<and> (case self_answers st of Obj d \<Rightarrow> indexed d | _ \<Rightarrow> True))"

subsection \<open>Example data\<close>

text \<open>
  A survey with three categories and five questions (the fifth without category), used to
  evaluate the definitions on concrete inputs.
\<close>

definition ex_category :: "int \<Rightarrow> category" where
  "ex_category k = \<lparr>c_pk = k, c_name = ''cat'', c_description = []\<rparr>"

definition ex_group :: "int \<Rightarrow> ag_type \<Rightarrow> answer_group" where
  "ex_group k t =
     \<lparr>ag_pk = k, ag_type = t, ag_name = ''group'', ag_prefix = None, ag_suffix = None,
      ag_choices = (if t \<in> {RADIO, SELECT, SELECT_IMAGE, SELECT_MULTIPLE}
                    then [(''red'', ''Red''), (''blue'', ''Blue'')] else [])\<rparr>"

definition ex_question :: "int \<Rightarrow> int option \<Rightarrow> answer_group list \<Rightarrow> question" where
  "ex_question k c ags =
     \<lparr>q_pk = k, q_text = ''text'', q_required = False, q_category = map_option ex_category c,
      q_order = Some k, q_answer_groups = ags\<rparr>"

definition ex_questions :: "question list" where
  "ex_questions =
     [ex_question 9 (Some 1) [ex_group 40 SELECT_MULTIPLE],
      ex_question 11 (Some 1) [ex_group 41 RADIO],
      ex_question 17 (Some 2) [ex_group 42 TEXT],
      ex_question 18 (Some 3) [ex_group 43 SELECT],
      ex_question 19 None [ex_group 44 SELECT_IMAGE]]"

definition ex_survey :: "display_method \<Rightarrow> bool \<Rightarrow> survey" where
  "ex_survey m editable =
     \<lparr>s_id = 1, s_display_method = m, s_editable_answers = editable, s_questions = ex_questions\<rparr>"

definition ex_form :: "display_method \<Rightarrow> bool \<Rightarrow> int option \<Rightarrow> form" where
  "ex_form m editable step =
     \<lparr>f_survey = ex_survey m editable,
      f_user = \<lparr>u_id = 7, is_authenticated = True\<rparr>,
      f_extra = [], f_step = step, f_random_seed = 5, f_uuid = ''abc'',
      f_categories = [ex_category 1, ex_category 2, ex_category 3]\<rparr>"


definition ex_seed :: "int \<Rightarrow> nat" where
  "ex_seed s = nat \<bar>s\<bar>"

definition ex_shuffle :: "nat \<Rightarrow> 'a list \<Rightarrow> 'a list \<times> nat" where
  "ex_shuffle g xs = (rotate (Suc g) xs, Suc g)"

text \<open>The keyword arguments \<^verbatim>\<open>add_question\<close> builds for a question without initial value.\<close>

definition ex_kwargs :: "question \<Rightarrow> kwargs" where
  "ex_kwargs question =
     \<lparr>kw_required = q_required question, kw_initial = None,
      kw_choices = get_question_choices question, kw_widget = get_question_widget question\<rparr>"

text \<open>
  A stored response of user 7 to the example survey, a stored answer to question 9 (group 40,
  multi-select) with a given body, and the store of a form that has read nothing yet.
\<close>

definition ex_response :: response where
  "ex_response =
     \<lparr>r_pk = Some 1, r_survey = Some 1, r_user = Some 7, r_interview_uuid = ''old'',
      r_random_seed = 5, r_extra = []\<rparr>"

definition ex_stored :: "'b \<Rightarrow> 'b answer" where
  "ex_stored body =
     \<lparr>a_pk = Some 1, a_response = Some 1, a_question = ex_questions ! 0,
      a_answer_group = ex_group 40 SELECT_MULTIPLE, a_body = body\<rparr>"

definition ex_store :: "response list \<Rightarrow> 'b answer list \<Rightarrow> 'b store" where
  "ex_store responses answers =
     \<lparr>db_responses = responses, db_answers = answers, db_questions = ex_questions,
      db_answer_groups = concat (map q_answer_groups ex_questions),
      self_response = PyFalse, self_answers = PyFalse, sent = []\<rparr>"

text \<open>The store of a form that has read that response and that answer.\<close>

definition ex_cached :: "string \<Rightarrow> string store" where
  "ex_cached body =
     (ex_store [ex_response] [ex_stored body])
       \<lparr>self_response := Obj ex_response, self_answers := Obj [(9, [(40, ex_stored body)])]\<rparr>"

section \<open>Properties\<close>

lemmas ex_defs =
  ex_form_def ex_survey_def ex_questions_def ex_question_def ex_group_def ex_category_def

subsection \<open>Step resolver\<close>

text \<open>
  C5. steps_count is the number of (non-empty) categories, plus one exactly when the survey
  has a question without category, in BY_CATEGORY mode; it is the number of the survey's
  questions in BY_QUESTION mode. With three categories that is 4 when some question has no
  category and 3 when none has.
\<close>

theorem steps_count_formula:
  "(s_display_method (f_survey f) = BY_CATEGORY \<longrightarrow>
      steps_count f = int (length (f_categories f)) +
        (if \<exists>q \<in> set (s_questions (f_survey f)). q_category q = None then 1 else 0))
   \<and> (s_display_method (f_survey f) = BY_QUESTION \<longrightarrow>
      steps_count f = int (length (s_questions (f_survey f))))
   \<and> (s_display_method (f_survey f) = BY_CATEGORY \<and> length (f_categories f) = 3 \<longrightarrow>
      steps_count f =
        (if \<exists>q \<in> set (s_questions (f_survey f)). q_category q = None then 4 else 3))"
  by (auto simp: steps_count_def qs_with_no_cat_def filter_empty_conv)

theorem steps_count_formula_witness:
  "s_display_method (f_survey (ex_form BY_CATEGORY True (Some 0))) = BY_CATEGORY
   \<and> length (f_categories (ex_form BY_CATEGORY True (Some 0))) = 3
   \<and> steps_count (ex_form BY_CATEGORY True (Some 0)) = 4
   \<and> steps_count (ex_form BY_QUESTION True (Some 0)) = 5"
  using steps_count_formula [of "ex_form BY_CATEGORY True (Some 0)"]
    steps_count_formula [of "ex_form BY_QUESTION True (Some 0)"]
  by (simp add: ex_defs)

text \<open>
  C6. has_next_step returns True exactly when the survey is not all on one page and the step
  is an integer below steps_count - 1; on an all-in-one-page survey it returns False for
  every step.
\<close>

theorem has_next_step_iff:
  "(has_next_step f = Inr True \<longleftrightarrow>
      s_display_method (f_survey f) \<noteq> ALL_IN_ONE_PAGE
      \<and> (\<exists>i. f_step f = Some i \<and> i < steps_count f - 1))
   \<and> (s_display_method (f_survey f) = ALL_IN_ONE_PAGE \<longrightarrow> has_next_step f = Inr False)"
  by (auto simp: has_next_step_def is_all_in_one_page_def split: option.splits)

theorem has_next_step_iff_witness:
  "has_next_step (ex_form BY_QUESTION True (Some 3)) = Inr True
   \<and> has_next_step (ex_form ALL_IN_ONE_PAGE True (Some 0)) = Inr False"
  using has_next_step_iff [of "ex_form BY_QUESTION True (Some 3)"]
    has_next_step_iff [of "ex_form ALL_IN_ONE_PAGE True (Some 0)"]
  by (simp add: ex_defs steps_count_def)

text \<open>
  C10. has_next_step is not total: when the survey is not all on one page and the step is
  None, the comparison raises TypeError. It returns a boolean exactly when the step is an
  integer or the survey is all on one page.
\<close>

theorem has_next_step_none_raises:
  "(s_display_method (f_survey f) \<noteq> ALL_IN_ONE_PAGE \<and> f_step f = None \<longrightarrow>
      has_next_step f = Inl TypeError)
   \<and> ((\<exists>b. has_next_step f = Inr b) \<longleftrightarrow>
        f_step f \<noteq> None \<or> s_display_method (f_survey f) = ALL_IN_ONE_PAGE)"
  by (auto simp: has_next_step_def is_all_in_one_page_def split: option.splits)

theorem has_next_step_none_raises_witness:
  "has_next_step (ex_form BY_QUESTION True None) = Inl TypeError
   \<and> (\<exists>b. has_next_step (ex_form BY_QUESTION True (Some 4)) = Inr b)"
  using has_next_step_none_raises [of "ex_form BY_QUESTION True None"]
    has_next_step_none_raises [of "ex_form BY_QUESTION True (Some 4)"]
  by (simp add: ex_defs)

subsection \<open>The questions of a step and the seeded shuffle\<close>




text \<open>
  C4. The seeded shuffle depends on the list and the seed only: whatever state the shared
  generator is in before the call (\<open>g\<close>, \<open>g'\<close>, or the state left by an earlier shuffle
  and any other use of the generator after it), the result is the same list; so the
  questions chosen for a step do not depend on that state either.
\<close>

theorem shuffle_deterministic:
  "fst (seeded_shuffle seed shuffle s xs g) = fst (seeded_shuffle seed shuffle s xs g')
   \<and> fst (seeded_shuffle seed shuffle s xs (other_use (snd (seeded_shuffle seed shuffle s xs g))))
       = fst (seeded_shuffle seed shuffle s xs g)
   \<and> fst (questions_for_step seed shuffle f g) = fst (questions_for_step seed shuffle f g')"
  by (auto simp: seeded_shuffle_def questions_for_step_def split: prod.splits sum.splits)

theorem shuffle_deterministic_witness:
  "map q_pk (fst (seeded_shuffle ex_seed ex_shuffle 5 ex_questions 0)) = [11, 17, 18, 19, 9]
   \<and> map q_pk (fst (seeded_shuffle ex_seed ex_shuffle 5 ex_questions 77)) = [11, 17, 18, 19, 9]
   \<and> map q_pk (fst (seeded_shuffle ex_seed ex_shuffle 5 ex_questions
                      (Suc (snd (seeded_shuffle ex_seed ex_shuffle 5 ex_questions 0)))))
       = [11, 17, 18, 19, 9]"
  using shuffle_deterministic [of ex_seed ex_shuffle 5 ex_questions 0 77 Suc]
  by (simp add: ex_defs ex_seed_def ex_shuffle_def seeded_shuffle_def rotate_def eval_nat_numeral)

subsection \<open>Field synthesizer: choices\<close>

lemma choices_dict_other:
  "k \<notin> ag_pk ` set ags \<Longrightarrow> map_of (choices_dict ags acc) k = map_of acc k"
  by (induction ags arbitrary: acc) (auto simp: Let_def update_conv')

lemma choices_dict_lookup:
  assumes "distinct (map ag_pk ags)" and "ag \<in> set ags"
  shows "map_of (choices_dict ags acc) (ag_pk ag)
         = (if ag_type ag \<in> {SELECT, SELECT_IMAGE} then Some (([], ''-------------'') # ag_choices ag)
            else if ag_type ag \<in> {RADIO, SELECT_MULTIPLE} \<and> ag_choices ag \<noteq> [] then Some (ag_choices ag)
            else map_of acc (ag_pk ag))"
  using assms
proof (induction ags arbitrary: acc)
  case Nil
  then show ?case by simp
next
  case (Cons a ags)
  show ?case
  proof (cases "ag = a")
    case True
    with Cons.prems have "ag_pk ag \<notin> ag_pk ` set ags" by auto
    then show ?thesis
      using True by (cases "ag_type a") (simp_all add: choices_dict_other update_conv' Let_def)
  next
    case False
    with Cons.prems have "ag \<in> set ags" "distinct (map ag_pk ags)" "ag_pk a \<noteq> ag_pk ag"
      by auto
    then show ?thesis
      using Cons.IH by (cases "ag_type a") (simp_all add: update_conv' Let_def)
  qed
qed

text \<open>
  C8 (as amended). For a single-select or select-with-image group of a question, the choices
  of the synthesized field are the group's declared choices with the empty option
  ("", "-------------") in front; for a radio group they are the declared choices as they
  are (and no choices argument is passed when there are none).
\<close>

theorem select_gets_empty_option:
  assumes "ag \<in> set (q_answer_groups question)"
    and "distinct (map ag_pk (q_answer_groups question))"
    and "kw_choices kw = get_question_choices question"
    and "field_for kw ag = Inr fd"
  shows "(ag_type ag \<in> {SELECT, SELECT_IMAGE} \<longrightarrow>
            fd_choices fd = Some (([], ''-------------'') # ag_choices ag))
         \<and> (ag_type ag = RADIO \<longrightarrow>
            fd_choices fd = (if ag_choices ag = [] then None else Some (ag_choices ag)))"
proof -
  let ?d = "choices_dict (q_answer_groups question) []"
  have look: "map_of ?d (ag_pk ag)
         = (if ag_type ag \<in> {SELECT, SELECT_IMAGE} then Some (([], ''-------------'') # ag_choices ag)
            else if ag_type ag \<in> {RADIO, SELECT_MULTIPLE} \<and> ag_choices ag \<noteq> [] then Some (ag_choices ag)
            else None)"
    using choices_dict_lookup [OF assms(2,1), of "[]"] by simp
  have fd: "fd_choices fd = (case get_question_choices question of None \<Rightarrow> None
                              | Some d \<Rightarrow> map_of d (ag_pk ag))"
    using assms(3,4) by (auto simp: field_for_def split: option.splits initial.splits sum.splits)
  have "(case get_question_choices question of None \<Rightarrow> None | Some d \<Rightarrow> map_of d (ag_pk ag))
        = map_of ?d (ag_pk ag)"
    by (cases "?d = []") (simp_all add: get_question_choices_def Let_def)
  with fd look show ?thesis by auto
qed

theorem select_gets_empty_option_witness:
  "fd_choices (projr (field_for (ex_kwargs (ex_questions ! 3)) (ex_group 43 SELECT)))
     = Some [([], ''-------------''), (''red'', ''Red''), (''blue'', ''Blue'')]
   \<and> fd_choices (projr (field_for (ex_kwargs (ex_questions ! 4)) (ex_group 44 SELECT_IMAGE)))
     = Some [([], ''-------------''), (''red'', ''Red''), (''blue'', ''Blue'')]"
  using select_gets_empty_option [of "ex_group 43 SELECT" "ex_questions ! 3"
      "ex_kwargs (ex_questions ! 3)"
      "projr (field_for (ex_kwargs (ex_questions ! 3)) (ex_group 43 SELECT))"]
    select_gets_empty_option [of "ex_group 44 SELECT_IMAGE" "ex_questions ! 4"
      "ex_kwargs (ex_questions ! 4)"
      "projr (field_for (ex_kwargs (ex_questions ! 4)) (ex_group 44 SELECT_IMAGE))"]
  by (simp add: ex_defs ex_kwargs_def field_for_def)

text \<open>
  The claim as stated fails for a radio group: its field gets the declared choices without
  the empty option.
\<close>

theorem radio_gets_no_empty_option:
  "get_question_choices (ex_questions ! 1) = Some [(41, [(''red'', ''Red''), (''blue'', ''Blue'')])]
   \<and> fd_choices (projr (field_for (ex_kwargs (ex_questions ! 1)) (ex_group 41 RADIO)))
     = Some [(''red'', ''Red''), (''blue'', ''Blue'')]
   \<and> fd_choices (projr (field_for (ex_kwargs (ex_questions ! 1)) (ex_group 41 RADIO)))
     \<noteq> Some (([], ''-------------'') # ag_choices (ex_group 41 RADIO))"
  by (simp add: ex_defs ex_kwargs_def field_for_def get_question_choices_def)

subsection \<open>The multi-select body\<close>

lemma split_from_no_sep:
  "sep \<noteq> [] \<Longrightarrow> hd sep \<notin> set a \<Longrightarrow> split_from sep cur a = [cur @ a]"
proof (induction a arbitrary: cur)
  case Nil
  then show ?case by simp
next
  case (Cons c a)
  from Cons.prems have "take (length sep) (c # a) \<noteq> sep"
    by (cases sep) auto
  with Cons show ?case by simp
qed

lemma split_from_at_sep:
  "sep \<noteq> [] \<Longrightarrow> split_from sep cur (sep @ rest) = cur # split_from sep [] rest"
  by (cases sep) auto

lemma split_from_first_sep:
  "sep \<noteq> [] \<Longrightarrow> hd sep \<notin> set a \<Longrightarrow>
   split_from sep cur (a @ sep @ rest) = (cur @ a) # split_from sep [] rest"
proof (induction a arbitrary: cur)
  case Nil
  then show ?case by (simp add: split_from_at_sep)
next
  case (Cons c a)
  from Cons.prems have "take (length sep) (c # a @ sep @ rest) \<noteq> sep"
    by (cases sep) auto
  with Cons show ?case by simp
qed





lemma dropWhile_hd_id: "s \<noteq> [] \<Longrightarrow> \<not> P (hd s) \<Longrightarrow> dropWhile P s = s"
  by (cases s) auto

lemma strip_id:
  assumes "s \<noteq> []" "\<not> P (hd s)" "\<not> P (last s)"
  shows "rev (dropWhile P (rev (dropWhile P s))) = s"
proof -
  have "dropWhile P s = s"
    using assms by (simp add: dropWhile_hd_id)
  moreover have "dropWhile P (rev s) = rev s"
    using assms by (intro dropWhile_hd_id) (auto simp: hd_rev)
  ultimately show ?thesis by simp
qed















subsection \<open>Resubmitted data\<close>

text \<open>
  C9. Question 9 has one answer group, the multi-select group 40, and a stored answer "red"
  that the form has read. \<^verbatim>\<open>add_question\<close> called without submitted data gives the field
  \<^verbatim>\<open>question_9_40\<close> the stored value as its initial value. Called with the data of a
  submission, which holds the value "blue" under the name of the field, it gives the field
  no initial value: line 217 reads the data under \<^verbatim>\<open>question_9\<close>, a name no field has,
  and replaces the stored value by None. Called with data that do hold a value under
  \<^verbatim>\<open>question_9\<close>, it raises TypeError at line 267, where the primary key of the group is
  looked for in that string. In neither case does the field get its initial value from the
  data.
\<close>

theorem resubmitted_data_not_used:
  "map_sum id (map (\<lambda>(idf, fd). (idf, fd_initial fd)) \<circ> fst)
      (fst (add_question slugify_ascii '','' (ex_form BY_QUESTION True (Some 0)) (ex_questions ! 0)
              None (ex_cached ''red'')))
     = Inr [(''question_9_40'', Some (ChoiceList [''red'']))]
   \<and> map_sum id (map (\<lambda>(idf, fd). (idf, fd_initial fd)) \<circ> fst)
      (fst (add_question slugify_ascii '','' (ex_form BY_QUESTION True (Some 0)) (ex_questions ! 0)
              (Some [(''question_9_40'', ''blue'')]) (ex_cached ''red'')))
     = Inr [(''question_9_40'', None)]
   \<and> fst (add_question slugify_ascii '','' (ex_form BY_QUESTION True (Some 0)) (ex_questions ! 0)
              (Some [(''question_9'', ''blue'')]) (ex_cached ''red''))
     = Inl TypeError
   \<and> fst (get_question_initial slugify_ascii '','' (ex_form BY_QUESTION True (Some 0)) (ex_questions ! 0)
              (Some [(''question_9_40'', ''blue'')]) (ex_cached ''red''))
     = Inr (FromData None)"
  by code_simp

subsection \<open>Field names\<close>

declare dec_digits.simps [simp del]

lemma is_digit_plain:
  assumes "is_digit c"
  shows "c \<noteq> CHR ''_''" "c \<noteq> CHR ''-''" "c \<noteq> CHR ''+''" "\<not> int_isspace c"
proof -
  have "(of_char c :: nat) \<noteq> of_char (CHR ''_'')" "(of_char c :: nat) \<noteq> of_char (CHR ''-'')"
    "(of_char c :: nat) \<noteq> of_char (CHR ''+'')"
    using assms by (simp_all add: is_digit_def Let_def)
  then show "c \<noteq> CHR ''_''" "c \<noteq> CHR ''-''" "c \<noteq> CHR ''+''"
    by auto
  show "\<not> int_isspace c"
    using assms by (simp add: int_isspace_def is_digit_def Let_def)
qed

lemma py_int_digits:
  assumes "ds \<noteq> []" and "list_all is_digit ds"
  shows "py_int ds = Inr (int (digits_value ds))"
    and "py_int (CHR ''-'' # ds) = Inr (- int (digits_value ds))"
proof -
  obtain c r where cr: "ds = c # r"
    using assms(1) by (cases ds) auto
  have "is_digit (hd ds)" "is_digit (last ds)"
    using assms by (auto simp: list_all_iff)
  then have sp: "\<not> int_isspace (hd ds)" "\<not> int_isspace (last ds)"
    by (simp_all add: is_digit_plain)
  have s1: "int_strip ds = ds"
    unfolding int_strip_def using assms(1) sp by (rule strip_id)
  have s2: "int_strip (CHR ''-'' # ds) = CHR ''-'' # ds"
    unfolding int_strip_def using sp assms(1) by (intro strip_id) (simp_all add: int_isspace_def)
  have c: "c \<noteq> CHR ''-''" "c \<noteq> CHR ''+''"
    using assms(2) cr by (simp_all add: is_digit_plain)
  show "py_int ds = Inr (int (digits_value ds))"
    unfolding py_int_def s1 Let_def using c assms by (simp add: cr)
  show "py_int (CHR ''-'' # ds) = Inr (- int (digits_value ds))"
    unfolding py_int_def s2 Let_def using assms by simp
qed

lemma of_char_digit_char: "d < 10 \<Longrightarrow> (of_char (digit_char d) :: nat) = 48 + d"
  by (simp add: digit_char_def)

lemma is_digit_digit_char: "d < 10 \<Longrightarrow> is_digit (digit_char d)"
  by (simp add: is_digit_def of_char_digit_char)

lemma dec_digits_not_Nil: "dec_digits n \<noteq> []"
  by (subst dec_digits.simps) simp

lemma dec_digits_all: "list_all is_digit (dec_digits n)"
proof (induction n rule: dec_digits.induct)
  case (1 n)
  show ?case
  proof (cases "n < 10")
    case True
    then show ?thesis by (subst dec_digits.simps) (simp add: is_digit_digit_char)
  next
    case False
    with 1 show ?thesis by (subst dec_digits.simps) (simp add: is_digit_digit_char)
  qed
qed

lemma digits_value_snoc: "digits_value (ds @ [c]) = 10 * digits_value ds + (of_char c - 48)"
  by (simp add: digits_value_def)

lemma digits_value_dec_digits: "digits_value (dec_digits n) = n"
proof (induction n rule: dec_digits.induct)
  case (1 n)
  show ?case
  proof (cases "n < 10")
    case True
    then show ?thesis
      by (subst dec_digits.simps) (simp add: digits_value_def of_char_digit_char)
  next
    case False
    then have "digits_value (dec_digits n)
        = 10 * digits_value (dec_digits (n div 10)) + (of_char (digit_char (n mod 10)) - 48)"
      by (subst dec_digits.simps) (simp add: digits_value_snoc)
    with False 1 show ?thesis by (simp add: of_char_digit_char)
  qed
qed

lemma py_str_int_no_underscore: "CHR ''_'' \<notin> set (py_str_int i)"
  using dec_digits_all [of "nat i"] dec_digits_all [of "nat (- i)"] is_digit_plain(1)
  by (auto simp: py_str_int_def list_all_iff)

lemma py_int_py_str_int: "py_int (py_str_int i) = Inr i"
proof (cases "i < 0")
  case True
  then show ?thesis
    using py_int_digits(2) [OF dec_digits_not_Nil dec_digits_all, of "nat (- i)"]
    by (simp add: py_str_int_def digits_value_dec_digits)
next
  case False
  then show ?thesis
    using py_int_digits(1) [OF dec_digits_not_Nil dec_digits_all, of "nat i"]
    by (simp add: py_str_int_def digits_value_dec_digits)
qed

lemma parse_field_name_round_trip:
  "parse_field_name (''question_'' @ py_str_int q @ ''_'' @ py_str_int g) = Inr (q, g)"
proof -
  have 1: "split_from ''_'' [] (''question'' @ ''_'' @ (py_str_int q @ ''_'' @ py_str_int g))
        = ([] @ ''question'') # split_from ''_'' [] (py_str_int q @ ''_'' @ py_str_int g)"
    by (rule split_from_first_sep) simp_all
  have 2: "split_from ''_'' [] (py_str_int q @ ''_'' @ py_str_int g)
        = ([] @ py_str_int q) # split_from ''_'' [] (py_str_int g)"
    by (rule split_from_first_sep) (simp_all add: py_str_int_no_underscore)
  have 3: "split_from ''_'' [] (py_str_int g) = [[] @ py_str_int g]"
    by (rule split_from_no_sep) (simp_all add: py_str_int_no_underscore)
  have name: "''question_'' @ py_str_int q @ ''_'' @ py_str_int g
        = ''question'' @ ''_'' @ (py_str_int q @ ''_'' @ py_str_int g)"
    by simp
  have parts: "split_from ''_'' [] (''question_'' @ py_str_int q @ ''_'' @ py_str_int g)
        = [''question'', py_str_int q, py_str_int g]"
    unfolding name 1 2 3 by simp
  have g1: "py_getitem [''question'', py_str_int q, py_str_int g] 1 = Inr (py_str_int q)"
    by (simp add: py_getitem_def)
  have g2: "py_getitem [''question'', py_str_int q, py_str_int g] 2 = Inr (py_str_int g)"
    by (simp add: py_getitem_def)
  show ?thesis
    unfolding parse_field_name_def parts Let_def g1 g2
    by (simp add: py_int_py_str_int)
qed

subsection \<open>Locked answers\<close>

lemma store_update_same:
  "self_response st = c \<Longrightarrow> st\<lparr>self_response := c\<rparr> = st"
  by (cases st) auto

lemma get_preexisting_response_found:
  assumes "self_response st = Obj r
           \<or> ((self_response st = PyFalse \<or> self_response st = PyNone)
              \<and> is_authenticated (f_user f)
              \<and> filter (\<lambda>r. r_user r = Some (u_id (f_user f)) \<and> r_survey r = Some (s_id (f_survey f)))
                   (db_responses st) = [r])"
  shows "get_preexisting_response f st = (Inr (Some r), st\<lparr>self_response := Obj r\<rparr>)"
  using assms by (auto simp: get_preexisting_response_def objects_get_def store_update_same)

text \<open>
  C3. When the survey's answers are not editable and the form holds a response, or its
  authenticated user has exactly one response to the survey in the database, \<^verbatim>\<open>save\<close>
  returns None whatever was submitted, and the store is as before but for the memoised
  response: the tables of responses and answers are unchanged and no completion event is
  sent.
\<close>

theorem locked_save_is_noop:
  fixes st :: "cleaned store"
  assumes "\<not> s_editable_answers (f_survey f)"
    and "self_response st = Obj r
         \<or> ((self_response st = PyFalse \<or> self_response st = PyNone)
            \<and> is_authenticated (f_user f)
            \<and> filter (\<lambda>r. r_user r = Some (u_id (f_user f)) \<and> r_survey r = Some (s_id (f_survey f)))
                 (db_responses st) = [r])"
  shows "save f cleaned_data st = (Inr None, st\<lparr>self_response := Obj r\<rparr>)
         \<and> db_responses (snd (save f cleaned_data st)) = db_responses st
         \<and> db_answers (snd (save f cleaned_data st)) = db_answers st
         \<and> sent (snd (save f cleaned_data st)) = sent st"
proof -
  have "save f cleaned_data st = (Inr None, st\<lparr>self_response := Obj r\<rparr>)"
    using assms(1) by (simp add: save_def get_preexisting_response_found [OF assms(2)])
  then show ?thesis by simp
qed

theorem locked_save_is_noop_witness:
  "save (ex_form BY_QUESTION False None) [(''question_9_40'', Selected [''blue''])]
       (ex_store [ex_response] [ex_stored (Selected [''red''])])
     = (Inr None, (ex_store [ex_response] [ex_stored (Selected [''red''])])\<lparr>self_response := Obj ex_response\<rparr>)
   \<and> db_answers (snd (save (ex_form BY_QUESTION False None) [(''question_9_40'', Selected [''blue''])]
       (ex_store [ex_response] [ex_stored (Selected [''red''])])))
     = [ex_stored (Selected [''red''])]"
proof -
  have h1: "\<not> s_editable_answers (f_survey (ex_form BY_QUESTION False None))"
    by (simp add: ex_form_def ex_survey_def)
  have h2: "self_response (ex_store [ex_response] [ex_stored (Selected [''red''])]) = Obj ex_response
         \<or> ((self_response (ex_store [ex_response] [ex_stored (Selected [''red''])]) = PyFalse
              \<or> self_response (ex_store [ex_response] [ex_stored (Selected [''red''])]) = PyNone)
            \<and> is_authenticated (f_user (ex_form BY_QUESTION False None))
            \<and> filter (\<lambda>r. r_user r = Some (u_id (f_user (ex_form BY_QUESTION False None)))
                          \<and> r_survey r = Some (s_id (f_survey (ex_form BY_QUESTION False None))))
                 (db_responses (ex_store [ex_response] [ex_stored (Selected [''red''])])) = [ex_response])"
    by (simp add: ex_store_def ex_form_def ex_survey_def ex_response_def)
  show ?thesis
    using locked_save_is_noop [OF h1 h2, of "[(''question_9_40'', Selected [''blue''])]"]
    by (simp add: ex_store_def)
qed

end
